theory Spec2Isabelle
  imports Complex_Main "HOL-Library.AList"
begin

section \<open>Composite bitmaps (KC\_CompositeBitmaps): data model\<close>

text \<open>
  A layer-info object always carries a \<open>filename\<close>. Face layers add \<open>index\<close>,
  top-view character layers add \<open>sIndex\<close>, \<open>dIndex\<close> and \<open>_isBig\<close>; side-view and
  picture layers carry the file name only. The record is extensible, so the routines
  that read only \<open>.filename\<close> (circular-reference check, flattening) are written once
  for all four kinds.
\<close>

record layer_info =
  filename :: string

record face_layer = layer_info +
  index :: int

record tv_layer = layer_info +
  sIndex :: int
  dIndex :: int
  isBig :: bool

text \<open>
  The four dictionaries \<open>$.faceLayers\<close>, \<open>$.tvCharLayers\<close>, \<open>$.svCharLayers\<close> and
  \<open>$.picLayers\<close> are plain JavaScript objects used as string-keyed dictionaries. They
  are modelled as association lists in insertion order: \<open>dict[k]\<close> is \<open>map_of dict k\<close>
  (\<open>None\<close> for \<open>undefined\<close>), \<open>dict[k] = v\<close> is \<open>AList.update k v dict\<close> and
  \<open>delete dict[k]\<close> is \<open>AList.delete k dict\<close>. Reading a key that the object does
  not own finds the member it inherits from \<open>Object.prototype\<close>, if the key names one:
  the circular-reference check and the add operations are modelled with these members
  (\<open>getProperty\<close> below); the remove operations, flattening and saving are modelled for
  the own keys.
\<close>

type_synonym 'a layer_dict = "(string \<times> 'a layer_info_scheme list) list"

text \<open>
  A composite bitmap object: \<open>images\<close> is the field \<open>_images\<close> filled by the
  \<open>Composite_Bitmap\<close> constructor with the file names of its own layer list;
  \<open>ident\<close> stands for the identity of the JavaScript object.
\<close>

record composite_bitmap =
  ident :: nat
  images :: "string list"

record cached =
  bitmap :: composite_bitmap
  config :: string

text \<open>\<open>$.cache\<close> is a JavaScript \<open>Map\<close>, iterated in insertion order.\<close>

type_synonym cache = "(string \<times> cached) list"

record comp_state =
  faceLayers :: "(string \<times> face_layer list) list"
  tvCharLayers :: "(string \<times> tv_layer list) list"
  svCharLayers :: "(string \<times> layer_info list) list"
  picLayers :: "(string \<times> layer_info list) list"
  cache :: cache
  console :: "string list"

definition FACE_PREFIX :: string where "FACE_PREFIX = ''fc''"
definition PICTURE_PREFIX :: string where "PICTURE_PREFIX = ''pc''"

definition initial_state :: comp_state where
  "initial_state =
     \<lparr>faceLayers = [], tvCharLayers = [], svCharLayers = [], picLayers = [],
      cache = [], console = []\<rparr>"

section \<open>Cache set-up and invalidation\<close>

definition startsWith :: "string \<Rightarrow> string \<Rightarrow> bool" where
  "startsWith s pre = (take (length pre) s = pre)"

text \<open>
  \<open>$.setupComposite(filename, layerInfos, prefix, compositeLoadFunc)\<close>.
  \<open>JsonEx.stringify\<close> belongs to the engine and is a parameter. The loader callback
  constructs the composite bitmap; while doing so it loads the layer images through the
  patched \<open>ImageManager\<close>, which may enter \<open>setupComposite\<close> again for nested
  composites, so the callback takes the cache and returns it together with the bitmap.
\<close>

definition setupComposite ::
  "('a list \<Rightarrow> string) \<Rightarrow> string \<Rightarrow> 'a list \<Rightarrow> string \<Rightarrow>
   ('a list \<Rightarrow> cache \<Rightarrow> composite_bitmap \<times> cache) \<Rightarrow> cache \<Rightarrow> composite_bitmap \<times> cache" where
  "setupComposite stringify fname layerInfos pre compositeLoadFunc c =
     (let cfg = stringify layerInfos;
          key = pre @ fname;
          build = (\<lambda>c'. case compositeLoadFunc layerInfos c' of
                            (compBmp, c'') \<Rightarrow>
                              (compBmp, AList.update key \<lparr>bitmap = compBmp, config = cfg\<rparr> c''))
      in case map_of c key of
           Some entry \<Rightarrow>
             if config entry = cfg then (bitmap entry, c)
             else build (AList.delete key c)
         | None \<Rightarrow> build c)"

text \<open>
  \<open>$.invalidateCachedComposites(layerName, prefix)\<close>: the \<open>for ... of\<close> loop over the
  cache entries, deleting the entries under the prefix whose bitmap lists \<open>layerName\<close>
  in \<open>_images\<close>. The call \<open>cached.bitmap.destroy()\<close> on a deleted entry frees the
  engine's canvas and leaves the cache and the dictionaries alone.
\<close>

fun invalidateCachedComposites :: "string \<Rightarrow> string \<Rightarrow> cache \<Rightarrow> cache" where
  "invalidateCachedComposites layerName pre [] = []"
| "invalidateCachedComposites layerName pre (pair # rest) =
     (if startsWith (fst pair) pre
      then (if layerName \<in> set (images (bitmap (snd pair)))
            then invalidateCachedComposites layerName pre rest
            else pair # invalidateCachedComposites layerName pre rest)
      else pair # invalidateCachedComposites layerName pre rest)"

section \<open>Circular-reference check\<close>

text \<open>
  What \<open>dict[k]\<close> can yield on a plain object: \<open>undefined\<close>, a list of layers stored
  under the own key \<open>k\<close>, or a member inherited from \<open>Object.prototype\<close>. The inherited
  members are the functions \<open>toString\<close>, \<open>toLocaleString\<close> and \<open>valueOf\<close> (of \<open>length\<close>
  0), \<open>constructor\<close>, \<open>hasOwnProperty\<close>, \<open>isPrototypeOf\<close>, \<open>propertyIsEnumerable\<close>,
  \<open>__lookupGetter__\<close> and \<open>__lookupSetter__\<close> (of \<open>length\<close> 1), \<open>__defineGetter__\<close> and
  \<open>__defineSetter__\<close> (of \<open>length\<close> 2), and the accessor \<open>__proto__\<close>, which yields
  \<open>Object.prototype\<close> itself, an object without \<open>length\<close>.
\<close>

datatype js_error = TypeError

datatype 'a property = Undefined | Layers "'a list" | Function nat | Prototype

definition objectPrototype :: "string \<Rightarrow> 'a property" where
  "objectPrototype k =
     (if k \<in> {''toString'', ''toLocaleString'', ''valueOf''} then Function 0
      else if k \<in> {''constructor'', ''hasOwnProperty'', ''isPrototypeOf'',
                    ''propertyIsEnumerable'', ''__lookupGetter__'', ''__lookupSetter__''}
      then Function 1
      else if k \<in> {''__defineGetter__'', ''__defineSetter__''} then Function 2
      else if k = ''__proto__'' then Prototype
      else Undefined)"

definition getProperty :: "(string \<times> 'a list) list \<Rightarrow> string \<Rightarrow> 'a property" where
  "getProperty d k = (case map_of d k of Some ls \<Rightarrow> Layers ls | None \<Rightarrow> objectPrototype k)"

text \<open>
  \<open>isNotCircularRef(filename, layerInfos, layerInfosDict)\<close>. The \<open>for\<close> loop runs
  while \<open>result\<close> is true; each round recurses into \<open>layerInfosDict[layerFile]\<close>. An
  inherited function is truthy: with a positive \<open>length\<close> the loop starts and
  \<open>layerInfos[0].filename\<close> reads a property of \<open>undefined\<close>, a \<open>TypeError\<close>; with
  \<open>length\<close> 0, and for the prototype object, whose \<open>length\<close> is \<open>undefined\<close>, the loop
  does not start and the result is true. The recursion has no bound in the source, so the
  model is a partial function: \<open>None\<close> stands for a call that never returns (in the
  engine, a stack overflow).
\<close>

partial_function (option) isNotCircularRef ::
  "string \<Rightarrow> 'a layer_info_scheme property \<Rightarrow> 'a layer_dict \<Rightarrow> (js_error + bool) option" where
  "isNotCircularRef fname layerInfos layerInfosDict =
     (case layerInfos of
        Undefined \<Rightarrow> Some (Inr True)
      | Function n \<Rightarrow> (if 0 < n then Some (Inl TypeError) else Some (Inr True))
      | Prototype \<Rightarrow> Some (Inr True)
      | Layers [] \<Rightarrow> Some (Inr True)
      | Layers (info # rest) \<Rightarrow>
          (let layerFile = filename info in
           if fname = layerFile then Some (Inr False)
           else Option.bind
                  (isNotCircularRef fname (getProperty layerInfosDict layerFile) layerInfosDict)
                  (\<lambda>res. case res of
                            Inl e \<Rightarrow> Some (Inl e)
                          | Inr result \<Rightarrow>
                              if result
                              then isNotCircularRef fname (Layers rest) layerInfosDict
                              else Some (Inr False))))"

declare isNotCircularRef.simps [code]

text \<open>The reference graph of a dictionary: pairs (layer file, composite that lists it).\<close>

definition layer_refs :: "'a layer_dict \<Rightarrow> (string \<times> string) set" where
  "layer_refs d = {(c, p). \<exists>ls. map_of d p = Some ls \<and> c \<in> filename ` set ls}"

definition logCircularRef :: "string \<Rightarrow> string \<Rightarrow> comp_state \<Rightarrow> comp_state" where
  "logCircularRef source destination st =
     st\<lparr>console := console st @
          [''Detected circular reference when trying to add '' @ source @ '' to '' @
           destination @ ''!'' @ [CHR 0x0A] @ ''Ignoring layer...'']\<rparr>"

section \<open>Adding and removing layers\<close>

text \<open>
  Each add operation first executes \<open>dict[destination] = dict[destination] || []\<close>,
  then asks \<open>isNotCircularRef(destination, dict[destination], dict)\<close>, and only then
  pushes the new layer and invalidates. The result is \<open>None\<close> when the call does not
  complete: the check does not return or throws, or \<open>push\<close> is applied to an inherited
  member, which has no such method (a \<open>TypeError\<close>). The engine calls that follow
  (\<open>requestBattleRefresh\<close>, \<open>refreshSVBattlers\<close>, \<open>refreshMapCompositeChars\<close>) act on the
  engine's sprites; where they make a sprite load its bitmap again, that is a later call
  of the patched \<open>ImageManager\<close> and of \<open>setupComposite\<close>, after the state described here.

  \<open>orEmptyList\<close> is \<open>v || []\<close> (lists, functions and objects are truthy).
  \<open>assignProperty\<close> stores under a key the value just read under that key: a list
  becomes, or stays, the own entry; an inherited member stored under its own name is read
  as before, and the association list, which holds the lists only, is left as it is.
  \<open>pushLayer\<close> is \<open>v.push(x)\<close>.
\<close>

definition orEmptyList :: "'a property \<Rightarrow> 'a property" where
  "orEmptyList v = (case v of Undefined \<Rightarrow> Layers [] | _ \<Rightarrow> v)"

definition assignProperty ::
  "string \<Rightarrow> 'a property \<Rightarrow> (string \<times> 'a list) list \<Rightarrow> (string \<times> 'a list) list" where
  "assignProperty k v d = (case v of Layers ls \<Rightarrow> AList.update k ls d | _ \<Rightarrow> d)"

definition pushLayer :: "'a property \<Rightarrow> 'a \<Rightarrow> 'a list option" where
  "pushLayer v x = (case v of Layers ls \<Rightarrow> Some (ls @ [x]) | _ \<Rightarrow> None)"

definition addFaceLayer :: "string \<Rightarrow> string \<Rightarrow> int \<Rightarrow> comp_state \<Rightarrow> comp_state option" where
  "addFaceLayer source destination sourceIndex st =
     (let v = orEmptyList (getProperty (faceLayers st) destination);
          d = assignProperty destination v (faceLayers st)
      in case isNotCircularRef destination v d of
           None \<Rightarrow> None
         | Some (Inl e) \<Rightarrow> None
         | Some (Inr True) \<Rightarrow>
             (case pushLayer v \<lparr>filename = source, index = sourceIndex\<rparr> of
                None \<Rightarrow> None
              | Some ls \<Rightarrow>
                  Some (st\<lparr>faceLayers := AList.update destination ls d,
                          cache := invalidateCachedComposites destination FACE_PREFIX (cache st)\<rparr>))
         | Some (Inr False) \<Rightarrow> Some (logCircularRef source destination (st\<lparr>faceLayers := d\<rparr>)))"






definition addPictureLayer :: "string \<Rightarrow> string \<Rightarrow> comp_state \<Rightarrow> comp_state option" where
  "addPictureLayer source destination st =
     (let v = orEmptyList (getProperty (picLayers st) destination);
          d = assignProperty destination v (picLayers st)
      in case isNotCircularRef destination v d of
           None \<Rightarrow> None
         | Some (Inl e) \<Rightarrow> None
         | Some (Inr True) \<Rightarrow>
             (case pushLayer v \<lparr>filename = source\<rparr> of
                None \<Rightarrow> None
              | Some ls \<Rightarrow>
                  Some (st\<lparr>picLayers := AList.update destination ls d,
                          cache := invalidateCachedComposites destination PICTURE_PREFIX (cache st)\<rparr>))
         | Some (Inr False) \<Rightarrow> Some (logCircularRef source destination (st\<lparr>picLayers := d\<rparr>)))"






section \<open>Flattening nested composites\<close>



section \<open>Save and load\<close>

text \<open>
  The save-contents object: the engine's own fields are not modelled; \<open>KCDev\<close> and
  \<open>KCDev.CompositeBitmaps\<close> may be absent (a save made without the plugin), and so
  may each of the four saved dictionaries, which is why \<open>extractSaveContents\<close> reads
  them with \<open>|| {}\<close>.
\<close>

record saved_layers =
  savedFaceLayers :: "(string \<times> face_layer list) list option"
  savedTvCharLayers :: "(string \<times> tv_layer list) list option"
  savedSvCharLayers :: "(string \<times> layer_info list) list option"
  savedPicLayers :: "(string \<times> layer_info list) list option"

record kcdev_contents =
  CompositeBitmaps :: "saved_layers option"

record save_contents =
  KCDev :: "kcdev_contents option"

text \<open>
  \<open>DataManager.makeSaveContents\<close> (patched): \<open>base\<close> is what the engine's original
  function returned.
\<close>

definition makeSaveContents :: "save_contents \<Rightarrow> comp_state \<Rightarrow> save_contents \<times> comp_state" where
  "makeSaveContents base st =
     (let kc = (case KCDev base of Some k \<Rightarrow> k | None \<Rightarrow> \<lparr>CompositeBitmaps = None\<rparr>);
          saved = \<lparr>savedFaceLayers = Some (faceLayers st),
                   savedTvCharLayers = Some (tvCharLayers st),
                   savedSvCharLayers = Some (svCharLayers st),
                   savedPicLayers = Some (picLayers st)\<rparr>
      in (base\<lparr>KCDev := Some (kc\<lparr>CompositeBitmaps := Some saved\<rparr>)\<rparr>, st\<lparr>cache := []\<rparr>))"

definition orEmpty :: "'a list option \<Rightarrow> 'a list" where
  "orEmpty v = (case v of Some d \<Rightarrow> d | None \<Rightarrow> [])"

definition extractSaveContents :: "save_contents \<Rightarrow> comp_state \<Rightarrow> comp_state" where
  "extractSaveContents contents st =
     (let st1 = (case KCDev contents of
                   None \<Rightarrow> st
                 | Some kc \<Rightarrow>
                     (case CompositeBitmaps kc of
                        None \<Rightarrow> st
                      | Some saved \<Rightarrow>
                          st\<lparr>faceLayers := orEmpty (savedFaceLayers saved),
                             tvCharLayers := orEmpty (savedTvCharLayers saved),
                             svCharLayers := orEmpty (savedSvCharLayers saved),
                             picLayers := orEmpty (savedPicLayers saved)\<rparr>))
      in st1\<lparr>cache := []\<rparr>)"

section \<open>Wall reflections (KC\_Mirrors)\<close>

text \<open>
  \<open>$gameMap\<close> is an engine object; the model keeps what the wall cache reads from it:
  the map id, the size in tiles and the region id of each tile. Tile coordinates are
  whole numbers. \<open>KCDev.Mirrors.wallRegions\<close> is the configured set of wall-region ids
  and is a parameter of the functions below.
\<close>

record game_map =
  mapId :: int
  width :: int
  height :: int
  regionId :: "int \<Rightarrow> int \<Rightarrow> int"

text \<open>
  The plugin's own state: \<open>reflectWallPositions\<close> (initially \<open>null\<close>) maps an x
  coordinate to the array of wall y coordinates of that column; \<open>currMapId\<close> is
  initially \<open>-1\<close>.
\<close>

record mirrors_state =
  reflectWallPositions :: "(int \<Rightarrow> int list option) option"
  currMapId :: int

definition mirrors_initial :: mirrors_state where
  "mirrors_initial = \<lparr>reflectWallPositions = None, currMapId = - 1\<rparr>"

text \<open>
  \<open>buildCurrentMapCache\<close>: the inner loop \<open>for (j = height - 1; j >= 0; j--)\<close> for a
  fixed column \<open>i\<close>, then the outer loop \<open>for (i = width - 1; i >= 0; i--)\<close>.
\<close>

function buildColumn ::
  "int set \<Rightarrow> game_map \<Rightarrow> int \<Rightarrow> int \<Rightarrow> (int \<Rightarrow> int list option) \<Rightarrow> (int \<Rightarrow> int list option)" where
  "buildColumn wallRegions gm i j regionMap =
     (if j \<ge> 0
      then buildColumn wallRegions gm i (j - 1)
             (if regionId gm i j \<in> wallRegions
              then regionMap(i \<mapsto> (case regionMap i of Some yArr \<Rightarrow> yArr | None \<Rightarrow> []) @ [j])
              else regionMap)
      else regionMap)"
  by pat_completeness auto
termination
  by (relation "measure (\<lambda>(wallRegions, gm, i, j, regionMap). nat (j + 1))") auto

function buildColumns ::
  "int set \<Rightarrow> game_map \<Rightarrow> int \<Rightarrow> (int \<Rightarrow> int list option) \<Rightarrow> (int \<Rightarrow> int list option)" where
  "buildColumns wallRegions gm i regionMap =
     (if i \<ge> 0
      then buildColumns wallRegions gm (i - 1)
             (buildColumn wallRegions gm i (height gm - 1) regionMap)
      else regionMap)"
  by pat_completeness auto
termination
  by (relation "measure (\<lambda>(wallRegions, gm, i, regionMap). nat (i + 1))") auto

definition buildCurrentMapCache :: "int set \<Rightarrow> game_map \<Rightarrow> (int \<Rightarrow> int list option)" where
  "buildCurrentMapCache wallRegions gm = buildColumns wallRegions gm (width gm - 1) Map.empty"

text \<open>
  \<open>KCDev.Mirrors.refreshReflectWallCache\<close>, also run by the patched
  \<open>Game_Map.prototype.refresh\<close> and by a plugin command.
\<close>

definition refreshReflectWallCache :: "int set \<Rightarrow> game_map \<Rightarrow> mirrors_state \<Rightarrow> mirrors_state" where
  "refreshReflectWallCache wallRegions gm st =
     st\<lparr>reflectWallPositions := Some (buildCurrentMapCache wallRegions gm)\<rparr>"

text \<open>
  \<open>KCDev.Mirrors.getWallY(x, y)\<close>: the cache is rebuilt when the map id differs from
  the one recorded. The result is \<open>None\<close> if \<open>reflectWallPositions\<close> is still
  \<open>null\<close> when it is read (a \<open>TypeError\<close> in the engine).
\<close>

definition getWallY ::
  "int set \<Rightarrow> game_map \<Rightarrow> int \<Rightarrow> int \<Rightarrow> mirrors_state \<Rightarrow> int option \<times> mirrors_state" where
  "getWallY wallRegions gm x y st =
     (let st1 = (if currMapId st \<noteq> mapId gm
                 then (refreshReflectWallCache wallRegions gm st)\<lparr>currMapId := mapId gm\<rparr>
                 else st)
      in case reflectWallPositions st1 of
           None \<Rightarrow> (None, st1)
         | Some positions \<Rightarrow>
             (case positions x of
                Some col \<Rightarrow>
                  (case filter (\<lambda>yCoord. yCoord \<le> y) col of
                     [] \<Rightarrow> (Some (- 1), st1)
                   | y0 # _ \<Rightarrow> (Some y0, st1))
              | None \<Rightarrow> (Some (- 1), st1)))"

text \<open>
  The sprite fields that \<open>updateReflectWall\<close> reads and writes: position, scale,
  \<open>pivot.y\<close>, \<open>_tileId\<close> and \<open>_characterName\<close>. JavaScript numbers are modelled as
  exact reals; rounding of IEEE doubles is not part of the model.
\<close>

record sprite =
  pos_x :: real
  pos_y :: real
  scale_x :: real
  scale_y :: real
  pivot_y :: real
  tileId :: int
  characterName :: string

definition updateReflectCommon :: "sprite \<Rightarrow> sprite \<Rightarrow> sprite" where
  "updateReflectCommon this r =
     r\<lparr>pos_x := pos_x this, scale_x := scale_x this, scale_y := scale_y this,
       pivot_y := pivot_y this\<rparr>"

text \<open>
  The scale factor of pseudo-perspective mode:
  \<open>scale = 1 - (distToWall - 1) / maxWallDistance\<close>, then clamped by the two \<open>if\<close>s.
  HOL's \<open>x / 0 = 0\<close> is not what JavaScript computes, so the case
  \<open>maxWallDistance = 0\<close> is written out: the quotient is plus or minus infinity, which
  the clamp turns into 0 or 1, or it is NaN (for \<open>0 / 0\<close>), which passes both
  comparisons unchanged; \<open>None\<close> stands for NaN.
\<close>

definition perspectiveScale :: "real \<Rightarrow> real \<Rightarrow> real option" where
  "perspectiveScale distToWall maxWallDistance =
     (if maxWallDistance = 0
      then (if distToWall - 1 > 0 then Some 0
            else if distToWall - 1 < 0 then Some 1
            else None)
      else (let scale = 1 - (distToWall - 1) / maxWallDistance
            in if scale > 1 then Some 1
               else if scale < 0 then Some 0
               else Some scale))"

text \<open>
  \<open>KCDev.Mirrors.handleReflectFrame\<close>, called with the character sprite as \<open>this\<close>:
  for a sprite that shows a tile (\<open>_tileId > 0\<close>) under the same character name the
  reflection takes the tile id and the absolute value of its x scale; the bitmap and the
  frame it also sets are engine state.
\<close>

definition handleReflectFrame :: "sprite \<Rightarrow> sprite \<Rightarrow> sprite" where
  "handleReflectFrame this r =
     (if tileId this > 0 \<and> characterName this = characterName r
      then r\<lparr>tileId := tileId this, scale_x := \<bar>scale_x r\<bar>\<rparr>
      else r)"

text \<open>
  The part of \<open>Sprite_Character.prototype.updateReflectWall\<close> that places the visible
  wall reflection \<open>r\<close> of the character sprite \<open>this\<close>, once \<open>wallY >= 0\<close> is known,
  up to and including its last statement, the call of \<open>handleReflectFrame\<close>.
  Engine values (tile height, jump height, the summed x and y offsets of map and
  character, the character's \<open>_realY\<close>) are parameters. The result is \<open>None\<close> when the
  scale is NaN.
\<close>

definition updateReflectWall ::
  "bool \<Rightarrow> real \<Rightarrow> real \<Rightarrow> real \<Rightarrow> real \<Rightarrow> real \<Rightarrow> real \<Rightarrow> real \<Rightarrow> sprite \<Rightarrow> sprite \<Rightarrow> sprite option" where
  "updateReflectWall isPerspectiveMode maxWallDistance tileH realY jumpHeight xOffset yOffset
     wallY this r0 =
     (let r = updateReflectCommon this r0;
          distToWall = realY - wallY
      in if isPerspectiveMode
         then (case perspectiveScale distToWall maxWallDistance of
                 None \<Rightarrow> None
               | Some scale \<Rightarrow>
                   Some (handleReflectFrame this
                          (r\<lparr>pos_x := pos_x r + xOffset,
                             pos_y := pos_y this - tileH * distToWall - distToWall
                                      - jumpHeight * scale * (1 / 10)
                                      - pivot_y r * (1 - scale) + yOffset,
                             scale_x := - scale_x this * scale,
                             scale_y := scale_y this * scale\<rparr>)))
         else Some (handleReflectFrame this
                     (r\<lparr>pos_x := pos_x r + xOffset,
                        pos_y := pos_y this - tileH * distToWall * 2 + tileH
                                 - jumpHeight + yOffset,
                        scale_x := scale_x this * (- 1),
                        scale_y := scale_y this\<rparr>)))"

section \<open>Move-route transforms (KC\_MoveRouteTF)\<close>

text \<open>
  One entry of \<open>_moveRouteTransforms\<close>. All five fields are JavaScript numbers,
  modelled as exact reals.
\<close>

record transform =
  start :: real
  current :: real
  target :: real
  duration :: real
  time :: real

definition easeFunc :: "transform \<Rightarrow> real" where
  "easeFunc tf = start tf + (target tf - start tf) * (time tf / duration tf)"

definition needsUpdate :: "transform \<Rightarrow> bool" where
  "needsUpdate moveInfo = (time moveInfo < duration moveInfo)"

text \<open>
  The body of the \<open>forEach\<close> in \<open>updateTransformEx\<close>, for one transform, and the
  function itself. The update calls \<open>easeFunc\<close> only after \<open>time < duration\<close>, so
  with a positive duration whenever the time is not negative (it starts at 0 and only
  grows). For a duration of 0 JavaScript's quotient is NaN or infinite while HOL's is 0;
  no statement below depends on that case.
\<close>

definition updateTransform :: "transform \<Rightarrow> transform" where
  "updateTransform tf =
     (if needsUpdate tf
      then (let tf1 = tf\<lparr>time := time tf + 1\<rparr> in tf1\<lparr>current := easeFunc tf1\<rparr>)
      else tf)"

definition updateTransformEx :: "transform list \<Rightarrow> transform list" where
  "updateTransformEx transforms = map updateTransform transforms"


section \<open>Number lists in note tags (getSetFromNumList)\<close>










section \<open>Notions used in the statements\<close>






text \<open>
  The file names of the layers of a list and of all lists of a dictionary, and the names
  on which the check throws: those that the dictionary resolves to an inherited function
  of positive \<open>length\<close>.
\<close>

definition layerFiles :: "'a layer_info_scheme list \<Rightarrow> 'a layer_dict \<Rightarrow> string list" where
  "layerFiles lis d = map filename (lis @ concat (map snd d))"

definition throwsOn :: "'a layer_dict \<Rightarrow> string \<Rightarrow> bool" where
  "throwsOn d k = (case getProperty d k of Function n \<Rightarrow> 0 < n | _ \<Rightarrow> False)"

text \<open>
  The wall cache is current for a map when the recorded map id is not the map's (the
  next call rebuilds it) or the stored table is the one built from the map.
\<close>

definition cacheCurrent :: "int set \<Rightarrow> game_map \<Rightarrow> mirrors_state \<Rightarrow> bool" where
  "cacheCurrent wallRegions gm st =
     (currMapId st = mapId gm \<longrightarrow>
      reflectWallPositions st = Some (buildCurrentMapCache wallRegions gm))"

text \<open>The wall tiles of the map in column \<open>x\<close> at or above row \<open>y\<close>.\<close>

definition wallTilesAbove :: "int set \<Rightarrow> game_map \<Rightarrow> int \<Rightarrow> int \<Rightarrow> int set" where
  "wallTilesAbove wallRegions gm x y =
     {y'. 0 \<le> x \<and> x < width gm \<and> 0 \<le> y' \<and> y' < height gm \<and> y' \<le> y \<and>
          regionId gm x y' \<in> wallRegions}"

text \<open>
  A map of two columns and four rows whose tiles \<open>(0, 1)\<close> and \<open>(0, 2)\<close> carry the
  wall region 1.
\<close>

definition example_map :: game_map where
  "example_map =
     \<lparr>mapId = 1, width = 2, height = 4,
      regionId = (\<lambda>x y. if x = 0 \<and> (y = 1 \<or> y = 2) then 1 else 0)\<rparr>"

text \<open>A second map, of the same size, without any wall region.\<close>

definition plain_map :: game_map where
  "plain_map = \<lparr>mapId = 2, width = 2, height = 4, regionId = (\<lambda>x y. 0)\<rparr>"

text \<open>
  A character sprite at scale 2 showing a character image, the same sprite showing the
  tile 5 instead, and a reflection sprite.
\<close>

definition character_sprite :: sprite where
  "character_sprite =
     \<lparr>pos_x = 0, pos_y = 0, scale_x = 2, scale_y = 2, pivot_y = 0, tileId = 0,
      characterName = ''Actor1''\<rparr>"

definition tile_sprite :: sprite where
  "tile_sprite =
     \<lparr>pos_x = 0, pos_y = 0, scale_x = 2, scale_y = 2, pivot_y = 0, tileId = 5,
      characterName = ''''\<rparr>"

definition reflection_sprite :: sprite where
  "reflection_sprite =
     \<lparr>pos_x = 0, pos_y = 0, scale_x = 1, scale_y = 1, pivot_y = 0, tileId = 0,
      characterName = ''''\<rparr>"

text \<open>The clamp of a number into the interval from 0 to 1.\<close>

definition clamp01 :: "real \<Rightarrow> real" where
  "clamp01 v = max 0 (min 1 v)"









section \<open>Circular references: what the check does\<close>

lemma isNotCircularRef_undefined: "isNotCircularRef f Undefined d = Some (Inr True)"
  by (simp add: isNotCircularRef.simps)

lemma isNotCircularRef_empty: "isNotCircularRef f (Layers []) d = Some (Inr True)"
  by (simp add: isNotCircularRef.simps)

lemma isNotCircularRef_function:
  "isNotCircularRef f (Function n) d = (if 0 < n then Some (Inl TypeError) else Some (Inr True))"
  by (simp add: isNotCircularRef.simps)

lemma isNotCircularRef_prototype: "isNotCircularRef f Prototype d = Some (Inr True)"
  by (simp add: isNotCircularRef.simps)

lemma objectPrototype_not_layers: "objectPrototype k \<noteq> Layers ls"
  by (simp add: objectPrototype_def)

lemma isNotCircularRef_inherited_ends: "\<exists>r. isNotCircularRef f (objectPrototype k) d = Some r"
  by (cases "objectPrototype k :: 'a layer_info_scheme property")
     (simp_all add: isNotCircularRef_undefined isNotCircularRef_function
       isNotCircularRef_prototype objectPrototype_not_layers)

lemma isNotCircularRef_loop_ends:
  assumes "\<And>l. l \<in> set ls \<Longrightarrow> filename l \<noteq> f \<Longrightarrow>
             \<exists>r. isNotCircularRef f (getProperty d (filename l)) d = Some r"
  shows "\<exists>r. isNotCircularRef f (Layers ls) d = Some r"
  using assms
proof (induction ls)
  case Nil
  show ?case unfolding isNotCircularRef_empty by blast
next
  case (Cons a ls)
  from Cons.IH Cons.prems obtain r2 where r2: "isNotCircularRef f (Layers ls) d = Some r2"
    by auto
  show ?case
  proof (cases "filename a = f")
    case True
    then show ?thesis by (subst isNotCircularRef.simps) auto
  next
    case False
    with Cons.prems[of a] obtain r1
      where r1: "isNotCircularRef f (getProperty d (filename a)) d = Some r1" by auto
    from False show ?thesis
      by (subst isNotCircularRef.simps) (auto simp add: r1 r2 Let_def split: sum.splits)
  qed
qed

lemma isNotCircularRef_loop_returns:
  assumes "\<And>l. l \<in> set ls \<Longrightarrow> filename l \<noteq> f \<Longrightarrow>
             \<exists>b. isNotCircularRef f (getProperty d (filename l)) d = Some (Inr b)"
  shows "\<exists>b. isNotCircularRef f (Layers ls) d = Some (Inr b)"
  using assms
proof (induction ls)
  case Nil
  show ?case unfolding isNotCircularRef_empty by blast
next
  case (Cons a ls)
  from Cons.IH Cons.prems obtain b2 where b2: "isNotCircularRef f (Layers ls) d = Some (Inr b2)"
    by auto
  show ?case
  proof (cases "filename a = f")
    case True
    then show ?thesis by (subst isNotCircularRef.simps) auto
  next
    case False
    with Cons.prems[of a] obtain b1
      where b1: "isNotCircularRef f (getProperty d (filename a)) d = Some (Inr b1)" by auto
    from False show ?thesis
      by (subst isNotCircularRef.simps) (auto simp add: b1 b2 Let_def)
  qed
qed

lemma finite_layer_refs: "finite (layer_refs d)"
proof -
  have "layer_refs d \<subseteq> (\<Union>(p, ls) \<in> set d. (\<lambda>l. (filename l, p)) ` set ls)"
    by (auto simp: layer_refs_def dest!: map_of_SomeD)
  moreover have "finite (\<Union>(p, ls) \<in> set d. (\<lambda>l. (filename l, p)) ` set ls)" by auto
  ultimately show ?thesis by (rule finite_subset)
qed

lemma wf_layer_refs:
  assumes "acyclic {(c, p). (c, p) \<in> layer_refs d \<and> c \<noteq> f}"
  shows "wf {(c, p). (c, p) \<in> layer_refs d \<and> c \<noteq> f}"
proof -
  have "finite {(c, p). (c, p) \<in> layer_refs d \<and> c \<noteq> f}"
    by (rule finite_subset[OF _ finite_layer_refs[of d]]) auto
  then show ?thesis using assms by (rule finite_acyclic_wf)
qed

lemma isNotCircularRef_entry_ends:
  assumes "acyclic {(c, p). (c, p) \<in> layer_refs d \<and> c \<noteq> f}"
  shows "\<exists>r. isNotCircularRef f (getProperty d p) d = Some r"
  using wf_layer_refs[OF assms]
proof (induction p rule: wf_induct_rule)
  case (less p)
  show ?case
  proof (cases "map_of d p")
    case None
    then show ?thesis by (simp add: getProperty_def isNotCircularRef_inherited_ends)
  next
    case (Some ls)
    have "\<exists>r. isNotCircularRef f (getProperty d (filename l)) d = Some r"
      if "l \<in> set ls" "filename l \<noteq> f" for l
      using less[of "filename l"] that Some by (auto simp: layer_refs_def)
    then have "\<exists>r. isNotCircularRef f (Layers ls) d = Some r"
      by (rule isNotCircularRef_loop_ends)
    then show ?thesis by (simp add: getProperty_def Some)
  qed
qed

lemma layerFiles_entry:
  assumes "map_of d p = Some ls" and "l \<in> set ls"
  shows "filename l \<in> set (layerFiles lis d)"
proof -
  from assms(1) have "(p, ls) \<in> set d" by (rule map_of_SomeD)
  with assms(2) show ?thesis by (force simp: layerFiles_def)
qed

lemma isNotCircularRef_entry_returns:
  assumes "acyclic {(c, p). (c, p) \<in> layer_refs d \<and> c \<noteq> f}"
    and safe: "list_all (\<lambda>k. \<not> throwsOn d k) (layerFiles lis d)"
  shows "\<not> throwsOn d p \<Longrightarrow> \<exists>b. isNotCircularRef f (getProperty d p) d = Some (Inr b)"
  using wf_layer_refs[OF assms(1)]
proof (induction p rule: wf_induct_rule)
  case (less p)
  show ?case
  proof (cases "map_of d p")
    case None
    with less.prems show ?thesis
      by (cases "objectPrototype p :: 'a layer_info_scheme property")
         (auto simp add: getProperty_def throwsOn_def isNotCircularRef_undefined
           isNotCircularRef_function isNotCircularRef_prototype objectPrototype_not_layers)
  next
    case (Some ls)
    have "\<exists>b. isNotCircularRef f (getProperty d (filename l)) d = Some (Inr b)"
      if l: "l \<in> set ls" "filename l \<noteq> f" for l
    proof -
      have "\<not> throwsOn d (filename l)"
        using safe layerFiles_entry[OF Some l(1), of lis] by (simp add: list_all_iff)
      moreover have "(filename l, p) \<in> {(c, p). (c, p) \<in> layer_refs d \<and> c \<noteq> f}"
        using l Some by (auto simp: layer_refs_def)
      ultimately show ?thesis using less.IH by blast
    qed
    then have "\<exists>b. isNotCircularRef f (Layers ls) d = Some (Inr b)"
      by (rule isNotCircularRef_loop_returns)
    then show ?thesis by (simp add: getProperty_def Some)
  qed
qed

lemma isNotCircularRef_self_listing:
  assumes entry: "map_of d g = Some [l]" and name: "filename l = g" and other: "f \<noteq> g"
  shows "isNotCircularRef f (Layers [l]) d = None"
proof -
  let ?P = "\<lambda>f' lis d' (y :: js_error + bool). \<not> (f' = f \<and> lis = Layers [l] \<and> d' = d)"
  have "?P f' lis d' y" if run: "isNotCircularRef f' lis d' = Some y" for f' lis d' y
  proof (rule isNotCircularRef.raw_induct[where P = ?P, OF _ run])
    fix rec :: "string \<Rightarrow> 'a layer_info_scheme property \<Rightarrow> 'a layer_dict
                  \<Rightarrow> (js_error + bool) option"
    fix f' lis d' y
    assume IH: "\<And>a b c z. rec a b c = Some z \<Longrightarrow> ?P a b c z"
    assume body: "(case lis of
        Undefined \<Rightarrow> Some (Inr True)
      | Layers [] \<Rightarrow> Some (Inr True)
      | Layers (info # rest) \<Rightarrow>
          let layerFile = filename info
          in if f' = layerFile then Some (Inr False)
             else Option.bind (rec f' (getProperty d' layerFile) d')
                   (\<lambda>res. case res of
                            Inl e \<Rightarrow> Some (Inl e)
                          | Inr result \<Rightarrow>
                              if result then rec f' (Layers rest) d' else Some (Inr False))
      | Function n \<Rightarrow> (if 0 < n then Some (Inl TypeError) else Some (Inr True))
      | Prototype \<Rightarrow> Some (Inr True)) = Some y"
    show "?P f' lis d' y"
    proof
      assume "f' = f \<and> lis = Layers [l] \<and> d' = d"
      with body entry name other obtain r where "rec f (Layers [l]) d = Some r"
        by (auto simp: bind_eq_Some_conv Let_def getProperty_def)
      from IH[OF this] show False by simp
    qed
  qed
  then show ?thesis by (cases "isNotCircularRef f (Layers [l]) d") auto
qed

text \<open>
  Claim C1, evaluated where it fails. The claim says that no sequence of layer-add
  operations starting from empty dictionaries produces a cycle in the layer-reference
  graph. The add operations run the check on the layers the destination already has,
  before the new layer is pushed, so the new layer itself is never examined: adding the
  face \<open>A\<close> as a layer of \<open>A\<close> to the empty dictionaries is accepted, nothing is logged,
  and the resulting dictionary has the edge from \<open>A\<close> to \<open>A\<close>.
\<close>

theorem C1_self_reference_accepted:
  "addFaceLayer ''A'' ''A'' 0 initial_state
     = Some (initial_state\<lparr>faceLayers := [(''A'', [\<lparr>filename = ''A'', index = 0\<rparr>])]\<rparr>)
   \<and> (''A'', ''A'') \<in> layer_refs [(''A'', [\<lparr>filename = ''A'', index = 0 :: int\<rparr>])]"
  by (simp add: addFaceLayer_def getProperty_def objectPrototype_def orEmptyList_def
      assignProperty_def pushLayer_def initial_state_def isNotCircularRef_empty layer_refs_def)

text \<open>
  Claim C2 as amended: for every file name, every layer list and every dictionary in
  which every reference cycle passes through the queried file name (that is, in which the
  references to files other than the queried one form no cycle; every acyclic dictionary
  is of this kind), the call of \<open>isNotCircularRef\<close> ends, with true, with false or with a
  \<open>TypeError\<close>; and it returns true or false when, in addition, no layer of the list or
  of the dictionary is named after an inherited function of positive \<open>length\<close>
  (\<open>constructor\<close>, \<open>hasOwnProperty\<close> and the like) that is not a key of the dictionary.
\<close>

theorem C2_isNotCircularRef_returns:
  assumes "acyclic {(c, p). (c, p) \<in> layer_refs d \<and> c \<noteq> f}"
  shows "(\<exists>r. isNotCircularRef f (Layers lis) d = Some r)
         \<and> (list_all (\<lambda>k. \<not> throwsOn d k) (layerFiles lis d)
              \<longrightarrow> (\<exists>b. isNotCircularRef f (Layers lis) d = Some (Inr b)))"
proof
  show "\<exists>r. isNotCircularRef f (Layers lis) d = Some r"
    by (rule isNotCircularRef_loop_ends) (rule isNotCircularRef_entry_ends[OF assms])
next
  show "list_all (\<lambda>k. \<not> throwsOn d k) (layerFiles lis d)
          \<longrightarrow> (\<exists>b. isNotCircularRef f (Layers lis) d = Some (Inr b))"
  proof
    assume safe: "list_all (\<lambda>k. \<not> throwsOn d k) (layerFiles lis d)"
    show "\<exists>b. isNotCircularRef f (Layers lis) d = Some (Inr b)"
    proof (rule isNotCircularRef_loop_returns)
      fix l assume l: "l \<in> set lis" "filename l \<noteq> f"
      from safe l(1) have "\<not> throwsOn d (filename l)"
        by (auto simp: list_all_iff layerFiles_def)
      then show "\<exists>b. isNotCircularRef f (getProperty d (filename l)) d = Some (Inr b)"
        by (rule isNotCircularRef_entry_returns[OF assms safe])
    qed
  qed
qed

text \<open>
  Witness for C2: the dictionary with \<open>A\<close> built from \<open>B\<close> and \<open>B\<close> built from \<open>A\<close>
  has a cycle, but it passes through the queried name \<open>A\<close>, no layer is named after an
  inherited member, and the check returns.
\<close>

theorem C2_isNotCircularRef_returns_witness:
  "acyclic {(c, p). (c, p) \<in> layer_refs [(''A'', [\<lparr>filename = ''B''\<rparr>]), (''B'', [\<lparr>filename = ''A''\<rparr>])]
                    \<and> c \<noteq> ''A''}
   \<and> list_all (\<lambda>k. \<not> throwsOn [(''A'', [\<lparr>filename = ''B''\<rparr>]), (''B'', [\<lparr>filename = ''A''\<rparr>])] k)
        (layerFiles [\<lparr>filename = ''B''\<rparr>]
           [(''A'', [\<lparr>filename = ''B''\<rparr>]), (''B'', [\<lparr>filename = ''A''\<rparr>])])
   \<and> (\<exists>b. isNotCircularRef ''A'' (Layers [\<lparr>filename = ''B''\<rparr>])
             [(''A'', [\<lparr>filename = ''B''\<rparr>]), (''B'', [\<lparr>filename = ''A''\<rparr>])] = Some (Inr b))"
proof -
  let ?d = "[(''A'', [\<lparr>filename = ''B''\<rparr>]), (''B'', [\<lparr>filename = ''A''\<rparr>])] :: unit layer_dict"
  have "{(c, p). (c, p) \<in> layer_refs ?d \<and> c \<noteq> ''A''} = {(''B'', ''A'')}"
    by (auto simp: layer_refs_def split: if_splits)
  moreover have "acyclic {(''B'', ''A'')}"
    by (simp add: acyclic_insert wf_acyclic)
  ultimately have h: "acyclic {(c, p). (c, p) \<in> layer_refs ?d \<and> c \<noteq> ''A''}"
    by simp
  have s: "list_all (\<lambda>k. \<not> throwsOn ?d k) (layerFiles [\<lparr>filename = ''B''\<rparr>] ?d)"
    by (simp add: layerFiles_def throwsOn_def getProperty_def)
  from h s C2_isNotCircularRef_returns[OF h, of "[\<lparr>filename = ''B''\<rparr>]"]
  show ?thesis by blast
qed

text \<open>
  Counterexample to C2 as stated: with the entry \<open>B\<close> listing itself, a cycle among
  entries other than the queried name \<open>A\<close>, the check of the list \<open>[B]\<close> for \<open>A\<close>
  never returns; and with the empty dictionary the check of the list \<open>[constructor]\<close>
  for \<open>A\<close> reads the inherited function \<open>Object\<close> as a layer list and ends with a
  \<open>TypeError\<close>, neither true nor false.
\<close>

theorem C2_isNotCircularRef_diverges:
  "isNotCircularRef ''A'' (Layers [\<lparr>filename = ''B''\<rparr>]) [(''B'', [\<lparr>filename = ''B''\<rparr>])] = None
   \<and> isNotCircularRef ''A'' (Layers [\<lparr>filename = ''constructor''\<rparr>]) [] = Some (Inl TypeError)"
proof
  show "isNotCircularRef ''A'' (Layers [\<lparr>filename = ''B''\<rparr>]) [(''B'', [\<lparr>filename = ''B''\<rparr>])] = None"
    by (rule isNotCircularRef_self_listing[where g = "''B''"]) simp_all
next
  show "isNotCircularRef ''A'' (Layers [\<lparr>filename = ''constructor''\<rparr>]) [] = Some (Inl TypeError)"
    by (simp add: isNotCircularRef.simps getProperty_def objectPrototype_def)
qed

text \<open>
  Such a dictionary arises from the add operations themselves: the picture \<open>B\<close> is added
  to itself, then to \<open>A\<close>; both additions are accepted, and the check made by the next
  addition to \<open>A\<close> never returns, so that this addition does not complete.
\<close>

lemma add_sequence_does_not_return:
  "Option.bind (addPictureLayer ''B'' ''B'' initial_state) (addPictureLayer ''B'' ''A'')
     = Some (initial_state\<lparr>picLayers := [(''B'', [\<lparr>filename = ''B''\<rparr>]), (''A'', [\<lparr>filename = ''B''\<rparr>])]\<rparr>)
   \<and> isNotCircularRef ''A'' (Layers [\<lparr>filename = ''B''\<rparr>])
       [(''B'', [\<lparr>filename = ''B''\<rparr>]), (''A'', [\<lparr>filename = ''B''\<rparr>])] = None
   \<and> addPictureLayer ''Y'' ''A''
       (initial_state\<lparr>picLayers := [(''B'', [\<lparr>filename = ''B''\<rparr>]), (''A'', [\<lparr>filename = ''B''\<rparr>])]\<rparr>)
     = None"
proof -
  let ?d = "[(''B'', [\<lparr>filename = ''B''\<rparr>]), (''A'', [\<lparr>filename = ''B''\<rparr>])] :: unit layer_dict"
  have loop: "isNotCircularRef ''A'' (Layers [\<lparr>filename = ''B''\<rparr>]) ?d = None"
    by (rule isNotCircularRef_self_listing[where g = "''B''"]) simp_all
  have one: "addPictureLayer ''B'' ''B'' initial_state
               = Some (initial_state\<lparr>picLayers := [(''B'', [\<lparr>filename = ''B''\<rparr>])]\<rparr>)"
    by (simp add: addPictureLayer_def getProperty_def objectPrototype_def orEmptyList_def
        assignProperty_def pushLayer_def initial_state_def isNotCircularRef_empty)
  have two: "addPictureLayer ''B'' ''A'' (initial_state\<lparr>picLayers := [(''B'', [\<lparr>filename = ''B''\<rparr>])]\<rparr>)
               = Some (initial_state\<lparr>picLayers := ?d\<rparr>)"
    by (simp add: addPictureLayer_def getProperty_def objectPrototype_def orEmptyList_def
        assignProperty_def pushLayer_def initial_state_def isNotCircularRef_empty)
  have three: "addPictureLayer ''Y'' ''A'' (initial_state\<lparr>picLayers := ?d\<rparr>) = None"
    by (simp add: addPictureLayer_def getProperty_def objectPrototype_def orEmptyList_def
        assignProperty_def pushLayer_def initial_state_def loop)
  show ?thesis by (simp add: one two three loop)
qed

text \<open>
  An addition whose destination is named after an inherited member does not complete:
  for \<open>constructor\<close> the check throws, for \<open>toString\<close> the check returns true and \<open>push\<close>
  is missing.
\<close>

lemma add_to_inherited_member:
  "addPictureLayer ''X'' ''constructor'' initial_state = None
   \<and> addPictureLayer ''X'' ''toString'' initial_state = None"
  by (simp add: addPictureLayer_def getProperty_def objectPrototype_def orEmptyList_def
      assignProperty_def pushLayer_def initial_state_def isNotCircularRef_function)

section \<open>Flattening stops and yields source images\<close>




section \<open>Saving and loading\<close>

text \<open>
  Claim C10: loading what was just saved restores the four layer dictionaries as they were
  at save time, whatever the state the load starts from, and both the save and the load
  leave the composite cache empty.
\<close>

theorem C10_save_then_load:
  "faceLayers (extractSaveContents (fst (makeSaveContents base st)) st2) = faceLayers st
   \<and> tvCharLayers (extractSaveContents (fst (makeSaveContents base st)) st2) = tvCharLayers st
   \<and> svCharLayers (extractSaveContents (fst (makeSaveContents base st)) st2) = svCharLayers st
   \<and> picLayers (extractSaveContents (fst (makeSaveContents base st)) st2) = picLayers st
   \<and> cache (snd (makeSaveContents base st)) = []
   \<and> cache (extractSaveContents (fst (makeSaveContents base st)) st2) = []"
  by (simp add: makeSaveContents_def extractSaveContents_def orEmpty_def Let_def)

section \<open>Cache invalidation after a layer operation\<close>


lemma logCircularRef_console: "console (logCircularRef s d st) \<noteq> console st"
  by (simp add: logCircularRef_def)





section \<open>Looking a composite up twice\<close>

lemma setupComposite_entry:
  assumes "setupComposite S f l p load c = (b, c1)"
  shows "\<exists>e. map_of c1 (p @ f) = Some e \<and> bitmap e = b \<and> config e = S l"
  using assms
  by (auto simp: setupComposite_def Let_def update_conv' split: option.splits if_splits prod.splits)

text \<open>
  Claim C4: for every file name, prefix and layer lists, when \<open>setupComposite\<close> has
  returned the bitmap \<open>b1\<close> and left the cache \<open>c1\<close>, a second call on \<open>c1\<close> with a
  layer list of the same serialization returns the very same \<open>b1\<close> and leaves \<open>c1\<close> as
  it is, whatever the loader (the loader is not run); with a different serialization the
  loader runs on the cache without the stale entry, and the bitmap it builds is returned
  and stored, with the new serialization, under the prefixed key.
\<close>

theorem C4_setupComposite_second_call:
  assumes "setupComposite S f l1 p load1 c = (b1, c1)"
  shows "(S l2 = S l1 \<longrightarrow> setupComposite S f l2 p load2 c1 = (b1, c1))
       \<and> (S l2 \<noteq> S l1 \<longrightarrow>
            setupComposite S f l2 p load2 c1
              = (fst (load2 l2 (AList.delete (p @ f) c1)),
                 AList.update (p @ f)
                   \<lparr>bitmap = fst (load2 l2 (AList.delete (p @ f) c1)), config = S l2\<rparr>
                   (snd (load2 l2 (AList.delete (p @ f) c1))))
          \<and> map_of (snd (setupComposite S f l2 p load2 c1)) (p @ f)
              = Some \<lparr>bitmap = fst (load2 l2 (AList.delete (p @ f) c1)), config = S l2\<rparr>)"
proof -
  from setupComposite_entry[OF assms] obtain e
    where e: "map_of c1 (p @ f) = Some e" "bitmap e = b1" "config e = S l1" by blast
  show ?thesis
    using e by (auto simp: setupComposite_def Let_def update_conv' split: prod.splits)
qed

text \<open>
  Witness for C4: the face composite \<open>D\<close> is set up from the layer \<open>X\<close>; a second call
  with the same layers returns the bitmap of the first call although the loader offered
  would build another one; a call with the layers \<open>X\<close> and \<open>Y\<close> rebuilds and replaces
  the entry.
\<close>

theorem C4_setupComposite_second_call_witness:
  "setupComposite (\<lambda>ls. concat (map filename ls)) ''D'' [\<lparr>filename = ''X''\<rparr>] ''fc''
      (\<lambda>ls c. (\<lparr>ident = 1, images = map filename ls\<rparr>, c)) []
     = (\<lparr>ident = 1, images = [''X'']\<rparr>,
        [(''fcD'', \<lparr>bitmap = \<lparr>ident = 1, images = [''X'']\<rparr>, config = ''X''\<rparr>)])
   \<and> setupComposite (\<lambda>ls. concat (map filename ls)) ''D'' [\<lparr>filename = ''X''\<rparr>] ''fc''
      (\<lambda>ls c. (\<lparr>ident = 2, images = map filename ls\<rparr>, c))
      [(''fcD'', \<lparr>bitmap = \<lparr>ident = 1, images = [''X'']\<rparr>, config = ''X''\<rparr>)]
     = (\<lparr>ident = 1, images = [''X'']\<rparr>,
        [(''fcD'', \<lparr>bitmap = \<lparr>ident = 1, images = [''X'']\<rparr>, config = ''X''\<rparr>)])
   \<and> setupComposite (\<lambda>ls. concat (map filename ls)) ''D''
      [\<lparr>filename = ''X''\<rparr>, \<lparr>filename = ''Y''\<rparr>] ''fc''
      (\<lambda>ls c. (\<lparr>ident = 2, images = map filename ls\<rparr>, c))
      [(''fcD'', \<lparr>bitmap = \<lparr>ident = 1, images = [''X'']\<rparr>, config = ''X''\<rparr>)]
     = (\<lparr>ident = 2, images = [''X'', ''Y'']\<rparr>,
        [(''fcD'', \<lparr>bitmap = \<lparr>ident = 2, images = [''X'', ''Y'']\<rparr>, config = ''XY''\<rparr>)])"
proof -
  let ?S = "\<lambda>ls :: layer_info list. concat (map filename ls)"
  let ?load1 = "\<lambda>(ls :: layer_info list) (c :: cache). (\<lparr>ident = 1, images = map filename ls\<rparr>, c)"
  let ?load2 = "\<lambda>(ls :: layer_info list) (c :: cache). (\<lparr>ident = 2, images = map filename ls\<rparr>, c)"
  let ?c1 = "[(''fcD'', \<lparr>bitmap = \<lparr>ident = 1, images = [''X'']\<rparr>, config = ''X''\<rparr>)]"
  have first: "setupComposite ?S ''D'' [\<lparr>filename = ''X''\<rparr>] ''fc'' ?load1 []
                 = (\<lparr>ident = 1, images = [''X'']\<rparr>, ?c1)"
    by (simp add: setupComposite_def)
  from C4_setupComposite_second_call[OF first, of "[\<lparr>filename = ''X''\<rparr>]" ?load2]
       C4_setupComposite_second_call[OF first, of "[\<lparr>filename = ''X''\<rparr>, \<lparr>filename = ''Y''\<rparr>]" ?load2]
       first
  show ?thesis by simp
qed

section \<open>The closest wall tile\<close>

declare buildColumn.simps [simp del] buildColumns.simps [simp del]

lemma buildColumn_other: "k \<noteq> i \<Longrightarrow> buildColumn W gm i j m k = m k"
proof (induction W gm i j m rule: buildColumn.induct)
  case (1 W gm i j m)
  then show ?case by (subst buildColumn.simps) auto
qed

lemma rev_upto_step: "0 \<le> j \<Longrightarrow> rev [0..j] = j # rev [0..j - 1]"
  by (simp add: upto_rec2)

lemma buildColumn_at:
  "buildColumn W gm i j m i =
     (if filter (\<lambda>y. regionId gm i y \<in> W) (rev [0..j]) = [] then m i
      else Some ((case m i of Some a \<Rightarrow> a | None \<Rightarrow> [])
                 @ filter (\<lambda>y. regionId gm i y \<in> W) (rev [0..j])))"
proof (induction W gm i j m rule: buildColumn.induct)
  case (1 W gm i j m)
  show ?case
  proof (cases "j \<ge> 0")
    case True
    then show ?thesis
      using 1 by (subst buildColumn.simps) (auto simp: rev_upto_step)
  next
    case False
    then show ?thesis by (subst buildColumn.simps) simp
  qed
qed

lemma buildColumns_at:
  "buildColumns W gm i m x =
     (if 0 \<le> x \<and> x \<le> i then buildColumn W gm x (height gm - 1) m x else m x)"
proof (induction W gm i m rule: buildColumns.induct)
  case (1 W gm i m)
  show ?case
  proof (cases "i \<ge> 0")
    case True
    show ?thesis
    proof (cases "x = i")
      case xi: True
      with True 1 show ?thesis by (subst buildColumns.simps) simp
    next
      case xi: False
      with True 1 show ?thesis
        by (subst buildColumns.simps) (auto simp: buildColumn_at buildColumn_other)
    qed
  next
    case False
    then show ?thesis by (subst buildColumns.simps) auto
  qed
qed

lemma buildCurrentMapCache_at:
  "buildCurrentMapCache W gm x =
     (if 0 \<le> x \<and> x < width gm \<and> filter (\<lambda>y. regionId gm x y \<in> W) (rev [0..height gm - 1]) \<noteq> []
      then Some (filter (\<lambda>y. regionId gm x y \<in> W) (rev [0..height gm - 1]))
      else None)"
  by (auto simp: buildCurrentMapCache_def buildColumns_at buildColumn_at)

lemma descending_upto: "sorted_wrt (>) (rev [0..n :: int])"
  by (simp add: sorted_wrt_rev)

lemma head_of_descending:
  assumes "sorted_wrt (>) (xs :: int list)" and "filter P xs = y0 # rest"
  shows "\<forall>z \<in> set (filter P xs). z \<le> y0"
proof -
  have "sorted_wrt (>) (filter P xs)" using assms(1) by (rule sorted_wrt_filter)
  then show ?thesis unfolding assms(2) by auto
qed

lemma wall_column_set:
  "set (filter (\<lambda>yCoord. yCoord \<le> y) (filter (\<lambda>y'. regionId gm x y' \<in> W) (rev [0..height gm - 1])))
     = {y'. 0 \<le> y' \<and> y' < height gm \<and> y' \<le> y \<and> regionId gm x y' \<in> W}"
  by auto

lemma example_wall_lookup: "fst (getWallY {1} example_map 0 3 mirrors_initial) = Some 2"
  by (simp add: getWallY_def refreshReflectWallCache_def mirrors_initial_def example_map_def
      buildCurrentMapCache_def buildColumns.simps buildColumn.simps)

text \<open>
  The cache is current at the start for every map (no map has the id \<open>-1\<close>), a refresh
  on a map leaves it current for that map, and after a look-up on one map it is current
  for every map with another id.
\<close>

lemma cacheCurrent_initial: "mapId gm \<noteq> - 1 \<Longrightarrow> cacheCurrent W gm mirrors_initial"
  by (simp add: cacheCurrent_def mirrors_initial_def)

lemma cacheCurrent_refresh: "cacheCurrent W gm (refreshReflectWallCache W gm st)"
  by (simp add: cacheCurrent_def refreshReflectWallCache_def)

lemma cacheCurrent_other_map:
  "mapId gm2 \<noteq> mapId gm \<Longrightarrow> cacheCurrent W gm st \<Longrightarrow>
     cacheCurrent W gm2 (snd (getWallY W gm x y st))"
  by (auto simp: cacheCurrent_def getWallY_def refreshReflectWallCache_def Let_def
      split: option.splits list.splits)

text \<open>
  While the cache is current, \<open>getWallY\<close> returns the largest \<open>y'\<close> with \<open>y' <= y\<close> such
  that the tile \<open>(x, y')\<close> of the map carries a wall region, and \<open>-1\<close> when column \<open>x\<close>
  has no such tile; the call leaves the cache current.
\<close>

lemma getWallY_closest_wall_when_current:
  assumes "cacheCurrent W gm st"
  shows "(\<exists>r. fst (getWallY W gm x y st) = Some r \<and>
              (if wallTilesAbove W gm x y = {} then r = - 1
               else r \<in> wallTilesAbove W gm x y \<and> (\<forall>y' \<in> wallTilesAbove W gm x y. y' \<le> r)))
         \<and> cacheCurrent W gm (snd (getWallY W gm x y st))"
proof -
  let ?col = "filter (\<lambda>y'. regionId gm x y' \<in> W) (rev [0..height gm - 1])"
  let ?zs = "filter (\<lambda>yCoord. yCoord \<le> y) ?col"
  let ?st1 = "if currMapId st \<noteq> mapId gm
              then (refreshReflectWallCache W gm st)\<lparr>currMapId := mapId gm\<rparr>
              else st"
  have pos: "reflectWallPositions ?st1 = Some (buildCurrentMapCache W gm)"
    using assms by (auto simp: cacheCurrent_def refreshReflectWallCache_def)
  have cur: "cacheCurrent W gm ?st1"
    using assms by (auto simp: cacheCurrent_def refreshReflectWallCache_def)
  have run: "getWallY W gm x y st =
               (case buildCurrentMapCache W gm x of
                  Some col \<Rightarrow> (case filter (\<lambda>yCoord. yCoord \<le> y) col of
                                 [] \<Rightarrow> (Some (- 1), ?st1) | y0 # _ \<Rightarrow> (Some y0, ?st1))
                | None \<Rightarrow> (Some (- 1), ?st1))"
    unfolding getWallY_def Let_def pos by simp
  have snd_run: "snd (getWallY W gm x y st) = ?st1"
    unfolding run by (simp split: option.splits list.splits)
  show ?thesis
  proof (cases "0 \<le> x \<and> x < width gm \<and> ?col \<noteq> []")
    case False
    then have "wallTilesAbove W gm x y = {}"
      by (auto simp: wallTilesAbove_def filter_empty_conv)
    moreover have "fst (getWallY W gm x y st) = Some (- 1)"
      unfolding run using False by (simp add: buildCurrentMapCache_at)
    ultimately show ?thesis using cur snd_run by simp
  next
    case True
    then have S: "wallTilesAbove W gm x y = set ?zs"
      unfolding wall_column_set by (auto simp: wallTilesAbove_def)
    show ?thesis
    proof (cases ?zs)
      case Nil
      then have "fst (getWallY W gm x y st) = Some (- 1)"
        unfolding run using True by (simp add: buildCurrentMapCache_at)
      moreover have "wallTilesAbove W gm x y = {}" unfolding S Nil by simp
      ultimately show ?thesis using cur snd_run by simp
    next
      case (Cons y0 rest)
      then have r: "fst (getWallY W gm x y st) = Some y0"
        unfolding run using True by (simp add: buildCurrentMapCache_at)
      have "sorted_wrt (>) ?col" by (rule sorted_wrt_filter) (rule descending_upto)
      from head_of_descending[OF this Cons] have "\<forall>z \<in> set ?zs. z \<le> y0" .
      moreover have "y0 \<in> set ?zs" unfolding Cons by simp
      moreover have "set ?zs \<noteq> {}" unfolding Cons by simp
      ultimately show ?thesis using r cur snd_run unfolding S by simp
    qed
  qed
qed

text \<open>
  \<open>refreshReflectWallCache\<close> replaces the table and leaves the recorded map id alone.
\<close>

lemma refresh_keeps_recorded_map:
  "currMapId (refreshReflectWallCache W gm st) = currMapId st
   \<and> reflectWallPositions (refreshReflectWallCache W gm st) = Some (buildCurrentMapCache W gm)"
  by (simp add: refreshReflectWallCache_def)

text \<open>
  Claim C5 fails in the code: a look-up on the example map (map 1) records map 1; a
  refresh while the game is on the wall-free map 2, as \<open>Game_Map.prototype.refresh\<close>
  and the plugin command \<open>refreshReflectMap\<close> run it, stores the table of map 2 and
  leaves the recorded id 1; the next look-up on map 1 at \<open>(0, 3)\<close> then returns \<open>-1\<close>,
  although row 2 of column 0 is a wall tile at or above row 3 (and was found by the
  first look-up).
\<close>

theorem C5_stale_wall_table:
  "fst (getWallY {1} example_map 0 3
          (refreshReflectWallCache {1} plain_map
             (snd (getWallY {1} example_map 0 3 mirrors_initial)))) = Some (- 1)
   \<and> fst (getWallY {1} example_map 0 3 mirrors_initial) = Some 2
   \<and> 2 \<in> wallTilesAbove {1} example_map 0 3"
  by (simp add: getWallY_def refreshReflectWallCache_def mirrors_initial_def example_map_def
      plain_map_def buildCurrentMapCache_def buildColumns.simps buildColumn.simps
      wallTilesAbove_def)

section \<open>The scale of the wall reflection\<close>

lemma perspectiveScale_clamp:
  "m \<noteq> 0 \<Longrightarrow> perspectiveScale d m = Some (clamp01 (1 - (d - 1) / m))"
  by (auto simp: perspectiveScale_def clamp01_def Let_def max_def min_def)

lemma clamp01_range: "0 \<le> clamp01 v \<and> clamp01 v \<le> 1"
  by (simp add: clamp01_def)

lemma clamp01_far: "0 < m \<Longrightarrow> m + 1 \<le> d \<Longrightarrow> clamp01 (1 - (d - 1) / m) = 0"
proof -
  assume m: "0 < m" and d: "m + 1 \<le> d"
  then have "1 \<le> (d - 1) / m" by (simp add: le_divide_eq)
  then show ?thesis by (simp add: clamp01_def max_def min_def)
qed

lemma scaled_not_larger: "0 \<le> k \<Longrightarrow> k \<le> 1 \<Longrightarrow> \<bar>v * k\<bar> \<le> \<bar>v :: real\<bar>"
proof -
  assume k: "0 \<le> k" "k \<le> 1"
  have "\<bar>v * k\<bar> = \<bar>v\<bar> * k" using k by (simp add: abs_mult)
  also have "\<dots> \<le> \<bar>v\<bar> * 1" using k by (intro mult_left_mono) auto
  finally show ?thesis by simp
qed

text \<open>
  Claim C6 as amended: in pseudo-perspective mode with a maximum wall distance other
  than 0, for a character at vertical distance \<open>d = _realY - wallY\<close> from the wall tile,
  the scale of the reflection is the scale of the character sprite times the factor
  \<open>1 - (d - 1) / maxWallDistance\<close> clamped into the interval from 0 to 1, with the x
  component negated, except that for a sprite showing a tile under the reflection's
  character name the x component is the absolute value of that product; so the
  reflection is never larger than the character sprite; and when the maximum wall
  distance is positive the scale is 0 whenever \<open>d >= maxWallDistance + 1\<close>.
\<close>

theorem C6_perspective_scale:
  assumes "maxWallDistance \<noteq> 0"
  shows "\<exists>r. updateReflectWall True maxWallDistance tileH realY jumpHeight xOffset yOffset
               wallY this r0 = Some r
           \<and> scale_x r =
               (if tileId this > 0 \<and> characterName this = characterName r0
                then \<bar>- scale_x this * clamp01 (1 - ((realY - wallY) - 1) / maxWallDistance)\<bar>
                else - scale_x this * clamp01 (1 - ((realY - wallY) - 1) / maxWallDistance))
           \<and> scale_y r = scale_y this * clamp01 (1 - ((realY - wallY) - 1) / maxWallDistance)
           \<and> \<bar>scale_x r\<bar> \<le> \<bar>scale_x this\<bar> \<and> \<bar>scale_y r\<bar> \<le> \<bar>scale_y this\<bar>
           \<and> (0 < maxWallDistance \<and> maxWallDistance + 1 \<le> realY - wallY
                \<longrightarrow> scale_x r = 0 \<and> scale_y r = 0)"
proof -
  let ?k = "clamp01 (1 - ((realY - wallY) - 1) / maxWallDistance)"
  have k: "0 \<le> ?k" "?k \<le> 1" using clamp01_range by auto
  have "\<bar>- scale_x this * ?k\<bar> \<le> \<bar>scale_x this\<bar>"
    using scaled_not_larger[OF k, of "- scale_x this"] by simp
  moreover have "\<bar>scale_y this * ?k\<bar> \<le> \<bar>scale_y this\<bar>"
    using scaled_not_larger[OF k] by simp
  moreover have "0 < maxWallDistance \<and> maxWallDistance + 1 \<le> realY - wallY \<longrightarrow> ?k = 0"
    using clamp01_far by blast
  ultimately show ?thesis
    using assms
    by (auto simp: updateReflectWall_def updateReflectCommon_def handleReflectFrame_def Let_def
        perspectiveScale_clamp)
qed

text \<open>
  Witness for C6: with the default maximum distance 20 and a character sprite of scale 2,
  the reflection at distance 11 has x scale \<open>-1\<close>, and at distance 21 it has y scale 0; for
  the sprite that shows a tile the x scale at distance 11 is 1.
\<close>

theorem C6_perspective_scale_witness:
  "(20 :: real) \<noteq> 0
   \<and> map_option scale_x
        (updateReflectWall True 20 48 11 0 0 0 0 character_sprite reflection_sprite) = Some (- 1)
   \<and> map_option scale_y
        (updateReflectWall True 20 48 21 0 0 0 0 character_sprite reflection_sprite) = Some 0
   \<and> map_option scale_x
        (updateReflectWall True 20 48 11 0 0 0 0 tile_sprite reflection_sprite) = Some 1"
proof -
  have h: "(20 :: real) \<noteq> 0" by simp
  from C6_perspective_scale[OF h, of 48 11 0 0 0 0 character_sprite reflection_sprite]
       C6_perspective_scale[OF h, of 48 21 0 0 0 0 character_sprite reflection_sprite]
       C6_perspective_scale[OF h, of 48 11 0 0 0 0 tile_sprite reflection_sprite]
  show ?thesis
    by (auto simp: clamp01_def character_sprite_def tile_sprite_def reflection_sprite_def)
qed

text \<open>
  Counterexample to C6 as stated: with the maximum wall distance set to \<open>-5\<close>, a
  character at distance 3, which is at least \<open>maxWallDistance + 1\<close>, is reflected at
  the full scale 2 of its sprite, not at scale 0; and the reflection of a sprite of scale 2
  that shows a tile has, next to the wall, the x scale 2, not the negated \<open>-2\<close>.
\<close>

theorem C6_negative_distance_full_size:
  "(- 5 :: real) + 1 \<le> 3 - 0
   \<and> map_option scale_y
        (updateReflectWall True (- 5) 48 3 0 0 0 0 character_sprite reflection_sprite) = Some 2
   \<and> map_option scale_x
        (updateReflectWall True 20 48 1 0 0 0 0 tile_sprite reflection_sprite) = Some 2"
  by (simp add: updateReflectWall_def updateReflectCommon_def handleReflectFrame_def
      perspectiveScale_def Let_def character_sprite_def tile_sprite_def reflection_sprite_def)

section \<open>The transform tween\<close>

text \<open>
  One update of the character applies \<open>updateTransformEx\<close> to its five transforms; on
  each of them \<open>t\<close> updates are \<open>t\<close> rounds of the loop body.
\<close>

lemma updateTransformEx_ticks:
  "(updateTransformEx ^^ t) transforms = map (updateTransform ^^ t) transforms"
  by (induction t) (simp_all add: updateTransformEx_def)







section \<open>The set read from a number list\<close>

































end
